theory Spec2Isabelle
  imports Main "HOL-Library.Sublist"
begin


section \<open>Python values and exceptions shared by both modules\<close>

text \<open>
  The exceptions that the modelled functions of \<^verbatim>\<open>avocado/utils/disk.py\<close> and
  \<^verbatim>\<open>avocado/utils/configure_network.py\<close> can raise. \<open>NWException\<close> and
  \<open>DiskUtilsError\<close> are the two exception classes of the modules, carrying their
  message; the others are Python's built-in exceptions and the \<open>CmdError\<close> of the
  process layer.
\<close>

datatype error =
    NWException string
  | DiskUtilsError string
  | CmdError
  | IndexError
  | KeyError
  | TypeError
  | AttributeError
  | UnboundLocalError
  | OtherError

text \<open>
  The Python values that \<^verbatim>\<open>json.loads\<close> returns and the values \<^verbatim>\<open>None\<close> and
  \<^verbatim>\<open>False\<close> that the modelled code returns in their place.
\<close>

datatype pyval =
    PNone
  | PBool bool
  | PInt int
  | PStr string
  | PList "pyval list"
  | PDict "(string \<times> pyval) list"

text \<open>Python's truth value of an object.\<close>

fun truthy :: "pyval \<Rightarrow> bool" where
  "truthy PNone = False"
| "truthy (PBool b) = b"
| "truthy (PInt i) = (i \<noteq> 0)"
| "truthy (PStr s) = (s \<noteq> [])"
| "truthy (PList xs) = (xs \<noteq> [])"
| "truthy (PDict kvs) = (kvs \<noteq> [])"

text \<open>
  Subscription \<^verbatim>\<open>obj[key]\<close>: a dictionary raises \<open>KeyError\<close> on a missing key, a list
  raises \<open>IndexError\<close> out of range (negative indices count from the end) and
  \<open>TypeError\<close> on a non-integer index, a string is indexed like a list, and
  \<^verbatim>\<open>None\<close>, booleans and integers are not subscriptable.
\<close>

definition norm_index :: "nat \<Rightarrow> int \<Rightarrow> nat option" where
  "norm_index n i =
     (let j = (if i < 0 then int n + i else i)
      in if 0 \<le> j \<and> j < int n then Some (nat j) else None)"

fun py_getitem :: "pyval \<Rightarrow> pyval \<Rightarrow> error + pyval" where
  "py_getitem (PDict kvs) (PStr k) =
     (case map_of kvs k of None \<Rightarrow> Inl KeyError | Some v \<Rightarrow> Inr v)"
| "py_getitem (PDict kvs) _ = Inl KeyError"
| "py_getitem (PList xs) (PInt i) =
     (case norm_index (length xs) i of None \<Rightarrow> Inl IndexError | Some j \<Rightarrow> Inr (xs ! j))"
| "py_getitem (PList xs) _ = Inl TypeError"
| "py_getitem (PStr s) (PInt i) =
     (case norm_index (length s) i of None \<Rightarrow> Inl IndexError | Some j \<Rightarrow> Inr (PStr [s ! j]))"
| "py_getitem _ _ = Inl TypeError"

section \<open>String helpers of the Python runtime\<close>

text \<open>
  A \<open>string\<close> is read as a Python \<^verbatim>\<open>str\<close> whose code points are below 256.
  \<^verbatim>\<open>\s\<close> in a \<^verbatim>\<open>str\<close> pattern matches the code points for which
  \<^verbatim>\<open>str.isspace\<close> holds: below 256 these are 9 to 13, 28 to 32, 133 and 160.
\<close>

definition is_space :: "char \<Rightarrow> bool" where
  "is_space c =
     (let n = (of_char c :: nat)
      in (9 \<le> n \<and> n \<le> 13) \<or> (28 \<le> n \<and> n \<le> 32) \<or> n = 133 \<or> n = 160)"

definition is_digit :: "char \<Rightarrow> bool" where
  "is_digit c = (c \<in> set ''0123456789'')"

text \<open>\<^verbatim>\<open>s.rstrip(chars)\<close>, \<^verbatim>\<open>s.lstrip(chars)\<close> and \<^verbatim>\<open>s.strip(chars)\<close>, the character set as a predicate.\<close>

definition py_rstrip :: "(char \<Rightarrow> bool) \<Rightarrow> string \<Rightarrow> string" where
  "py_rstrip p s = rev (dropWhile p (rev s))"

definition py_lstrip :: "(char \<Rightarrow> bool) \<Rightarrow> string \<Rightarrow> string" where
  "py_lstrip p s = dropWhile p s"

definition py_strip :: "(char \<Rightarrow> bool) \<Rightarrow> string \<Rightarrow> string" where
  "py_strip p s = py_rstrip p (py_lstrip p s)"

text \<open>\<^verbatim>\<open>line.startswith(device)\<close>.\<close>

definition startswith :: "string \<Rightarrow> string \<Rightarrow> bool" where
  "startswith line device = prefix device line"

text \<open>
  \<^verbatim>\<open>re.split(r'\s+', line)\<close>: the pieces between the maximal runs of whitespace,
  with an empty first piece when the line starts with whitespace and an empty last
  piece when it ends with whitespace. The argument \<open>cur\<close> is the piece being read, reversed.
\<close>

function split_from :: "string \<Rightarrow> string \<Rightarrow> string list" where
  "split_from cur [] = [rev cur]"
| "split_from cur (c # cs) =
     (if is_space c then rev cur # split_from [] (dropWhile is_space cs)
      else split_from (c # cur) cs)"
  by pat_completeness auto
termination
  by (relation "measure (\<lambda>(cur, s). length s)")
     (auto simp: less_Suc_eq_le length_dropWhile_le)

definition re_split_ws :: "string \<Rightarrow> string list" where
  "re_split_ws line = split_from [] line"

text \<open>List subscription \<^verbatim>\<open>value[i]\<close> with a non-negative index.\<close>

definition item :: "'a list \<Rightarrow> nat \<Rightarrow> error + 'a" where
  "item xs i = (if i < length xs then Inr (xs ! i) else Inl IndexError)"

section \<open>disk.py\<close>

subsection \<open>get_partition_info\<close>

text \<open>
  The body of the \<^verbatim>\<open>for line in fdisk_lines\<close> loop for a line that starts with the device,
  in three steps.

  First, \<^verbatim>\<open>if not value[1] == "*"\<close>: the tokens after the first are copied one by one
  into \<open>values\<close> (empty at this point, since the loop returns at its first matching
  line), and \<open>value\<close> is rebuilt as the device, an empty boot flag and those tokens.
\<close>

definition insert_boot :: "string list \<Rightarrow> error + string list" where
  "insert_boot value =
     (case item value 1 of
        Inl e \<Rightarrow> Inl e
      | Inr b \<Rightarrow>
          if b \<noteq> ''*''
          then (let device = value ! 0;
                    boot = '''';
                    values = map (\<lambda>data. value ! data) [1..<length value]
                in Inr ([device, boot] @ values))
          else Inr value)"

text \<open>
  Second, \<^verbatim>\<open>if len(value) > 7\<close>: the tokens from index 7 on are concatenated with single
  spaces by the loop over \<^verbatim>\<open>range(1, type_atribute)\<close>, and the result, stripped of
  spaces, replaces \<^verbatim>\<open>value[7]\<close>.
\<close>

definition merge_type :: "string list \<Rightarrow> string list" where
  "merge_type value =
     (if length value > 7
      then (let type_atribute = length value - 7;
                type_data = foldl (\<lambda>type_data data. type_data @ '' '' @ value ! (7 + data))
                                  (value ! 7) [1..<type_atribute]
            in value[7 := py_strip (\<lambda>c. c = CHR '' '') type_data])
      else value)"

text \<open>
  Third, the dictionary literal of the \<^verbatim>\<open>return\<close>; its entries are evaluated in order, so
  the first index out of range raises \<open>IndexError\<close>. A dictionary is an association list.
\<close>

type_synonym pydict = "(string \<times> string) list"

definition partition_keys :: "string list" where
  "partition_keys =
     [''Device'', ''Boot'', ''Start'', ''End'', ''Sectors'', ''Size'', ''Id'', ''Type'']"

definition build_dict :: "string list \<Rightarrow> error + pydict" where
  "build_dict value =
     (if length value < 8 then Inl IndexError
      else Inr (zip partition_keys (take 8 value)))"

definition parse_line :: "string \<Rightarrow> error + pydict" where
  "parse_line line =
     (case insert_boot (re_split_ws line) of
        Inl e \<Rightarrow> Inl e
      | Inr value \<Rightarrow> build_dict (merge_type value))"

text \<open>The loop over the lines: lines that do not start with the device are skipped, the
  first one that does is parsed and returned; falling off the loop returns \<^verbatim>\<open>None\<close>.\<close>

fun scan_lines :: "string \<Rightarrow> string list \<Rightarrow> error + pydict option" where
  "scan_lines device [] = Inr None"
| "scan_lines device (line # rest) =
     (if \<not> startswith line device then scan_lines device rest
      else (case parse_line line of Inl e \<Rightarrow> Inl e | Inr d \<Rightarrow> Inr (Some d)))"

text \<open>
  \<^verbatim>\<open>get_partition_info(device)\<close>. The two collaborators are parameters: \<open>disks\<close> is the
  list returned by \<^verbatim>\<open>get_disks()\<close>, and \<open>popen_lines\<close> maps a command line to the lines
  read from \<^verbatim>\<open>os.popen\<close> of it.
\<close>

definition fdisk_cmd :: "string \<Rightarrow> string" where
  "fdisk_cmd disk_device = ''/sbin/fdisk -l -u  '' @ [CHR 0x27] @ disk_device @ [CHR 0x27]"

definition get_partition_info ::
  "string list \<Rightarrow> (string \<Rightarrow> string list) \<Rightarrow> string \<Rightarrow> error + pydict option" where
  "get_partition_info disks popen_lines device =
     (if device \<in> set disks then Inl (DiskUtilsError ''provided disk partition not disk'')
      else (let disk_device = py_rstrip is_digit device;
                fdisk_lines = popen_lines (fdisk_cmd disk_device)
            in scan_lines device fdisk_lines))"

subsection \<open>is_linux_fs_type\<close>

text \<open>
  \<^verbatim>\<open>get_partition_info(device)['Type'] == 83\<close>: subscripting \<^verbatim>\<open>None\<close> raises
  \<open>TypeError\<close>; the value found is a string, compared with the integer 83.
\<close>

definition dict_get :: "pydict \<Rightarrow> string \<Rightarrow> error + string" where
  "dict_get d k = (case map_of d k of None \<Rightarrow> Inl KeyError | Some v \<Rightarrow> Inr v)"

text \<open>
  Python's \<^verbatim>\<open>==\<close> between a \<^verbatim>\<open>str\<close> and an \<^verbatim>\<open>int\<close>: neither type compares
  with the other, so the result is \<^verbatim>\<open>False\<close> whatever the two values are.
\<close>

definition str_eq_int :: "string \<Rightarrow> int \<Rightarrow> bool" where
  "str_eq_int s n = False"

definition is_linux_fs_type ::
  "string list \<Rightarrow> (string \<Rightarrow> string list) \<Rightarrow> string \<Rightarrow> error + bool" where
  "is_linux_fs_type disks popen_lines device =
     (case get_partition_info disks popen_lines device of
        Inl e \<Rightarrow> Inl e
      | Inr None \<Rightarrow> Inl TypeError
      | Inr (Some d) \<Rightarrow>
          (case dict_get d ''Type'' of
             Inl e \<Rightarrow> Inl e
           | Inr t \<Rightarrow> if str_eq_int t 83 then Inr True else Inr False))"

subsection \<open>The record that the specification describes\<close>

text \<open>
  The specification's reading of a partition line: the line is split on whitespace;
  the record has the eight fields Device, Boot, Start, End, Sectors, Size, Id and Type,
  the boot flag being empty unless the second piece is \<^verbatim>\<open>*\<close>, and every piece from
  the eighth field on is joined with single spaces into Type.
\<close>

fun join_sp :: "string list \<Rightarrow> string" where
  "join_sp [] = []"
| "join_sp [x] = x"
| "join_sp (x # y # ys) = x @ '' '' @ join_sp (y # ys)"

fun spec_fields :: "string list \<Rightarrow> string list" where
  "spec_fields (d # b # rest) = (if b = ''*'' then d # b # rest else d # [] # b # rest)"
| "spec_fields toks = toks"

definition spec_record :: "string \<Rightarrow> pydict" where
  "spec_record line =
     (let f = spec_fields (re_split_ws line)
      in [(''Device'', f ! 0), (''Boot'', f ! 1), (''Start'', f ! 2), (''End'', f ! 3),
          (''Sectors'', f ! 4), (''Size'', f ! 5), (''Id'', f ! 6),
          (''Type'', py_strip (\<lambda>c. c = CHR '' '') (join_sp (drop 7 f)))])"

text \<open>
  The pieces that \<^verbatim>\<open>re.split\<close> gives are enough when the eight fields can be filled:
  at least seven pieces, or at least eight when the second one is the boot flag. The
  empty piece that follows the whitespace at the end of a line counts as one.
\<close>

fun enough_pieces :: "string list \<Rightarrow> bool" where
  "enough_pieces (d # b # rest) = (if b = ''*'' then 6 \<le> length rest else 5 \<le> length rest)"
| "enough_pieces toks = False"

section \<open>configure_network.py\<close>

subsection \<open>Collaborators\<close>

text \<open>
  A remote session is what \<^verbatim>\<open>session.cmd(command)\<close> does: it raises or gives the
  standard output of the command, decoded. An interface has a name and, when it is
  remote, a session; a session object is always true in a condition.
\<close>

type_synonym session = "string \<Rightarrow> error + string"

record NetworkInterface =
  name :: string
  remote_session :: "session option"

text \<open>
  What the methods change: the regular files, as a map from path to contents, and the
  commands run on the local host, in order (\<open>ran\<close> appends one). The exit status of
  a local command is given by a function \<open>run\<close> from the command line to the status;
  commands do not touch the files of the model.
\<close>

record world =
  files :: "string \<rightharpoonup> string"
  issued :: "string list"

definition ran :: "string \<Rightarrow> world \<Rightarrow> world" where
  "ran cmd w = w\<lparr>issued := issued w @ [cmd]\<rparr>"

text \<open>
  Modelled from the spec: \<^verbatim>\<open>process.system\<close> of the process layer, which is not among
  the sources. It runs the command and returns its exit status; a non-zero status raises
  the command error unless the status is ignored.
\<close>

definition process_system :: "(string \<Rightarrow> int) \<Rightarrow> string \<Rightarrow> bool \<Rightarrow> error + int" where
  "process_system run cmd ignore_status =
     (let status = run cmd
      in if status \<noteq> 0 \<and> \<not> ignore_status then Inl CmdError else Inr status)"

text \<open>
  Modelled from the spec: \<^verbatim>\<open>wait.wait_for(predicate, timeout, args)\<close>, which is not among
  the sources. It calls the predicate repeatedly until it is true or the timeout elapses,
  and gives a false value in the second case. \<open>poll i\<close> is the outcome of the
  \<open>i\<close>-th call of the predicate, and the last argument is the number of calls that
  fit in the timeout. An exception of the predicate is not caught here.
\<close>

fun wait_for :: "(nat \<Rightarrow> error + bool) \<Rightarrow> nat \<Rightarrow> nat \<Rightarrow> error + bool" where
  "wait_for poll i 0 = Inr False"
| "wait_for poll i (Suc n) =
     (case poll i of
        Inl e \<Rightarrow> Inl e
      | Inr output \<Rightarrow> if output then Inr True else wait_for poll (Suc i) n)"

text \<open>\<^verbatim>\<open>sub in s\<close> for two strings.\<close>

fun contains :: "string \<Rightarrow> string \<Rightarrow> bool" where
  "contains sub [] = (sub = [])"
| "contains sub (c # cs) = (prefix sub (c # cs) \<or> contains sub cs)"

subsection \<open>bring_up, bring_down, _move_config_file\<close>

text \<open>The message of the exception is the text before the formatted command error.\<close>

definition bring_up ::
  "(string \<Rightarrow> int) \<Rightarrow> NetworkInterface \<Rightarrow> world \<Rightarrow> (error + bool) \<times> world" where
  "bring_up run nic w =
     (let cmd = ''ifup '' @ name nic
      in case process_system run cmd False of
           Inl e \<Rightarrow> (Inl (NWException ''ifup fails: ''), ran cmd w)
         | Inr status \<Rightarrow> (Inr True, ran cmd w))"

definition bring_down ::
  "(string \<Rightarrow> int) \<Rightarrow> NetworkInterface \<Rightarrow> world \<Rightarrow> (error + bool) \<times> world" where
  "bring_down run nic w =
     (let cmd = ''ifdown '' @ name nic
      in case process_system run cmd False of
           Inl e \<Rightarrow> (Inl (NWException ''ifdown fails: ''), ran cmd w)
         | Inr status \<Rightarrow> (Inr True, ran cmd w))"

text \<open>
  \<^verbatim>\<open>shutil.move(src_conf, dest_conf)\<close> between two regular files renames the source,
  replacing the destination when it exists.
\<close>

definition move_config_file ::
  "NetworkInterface \<Rightarrow> string \<Rightarrow> string \<Rightarrow> world \<Rightarrow> (error + unit) \<times> world" where
  "move_config_file nic src_conf dest_conf w =
     (case files w src_conf of
        Some content \<Rightarrow>
          (Inr (), w\<lparr>files := ((files w)(src_conf := None))(dest_conf \<mapsto> content)\<rparr>)
      | None \<Rightarrow> (Inl (NWException (name nic @ '' interface not available'')), w))"

subsection \<open>set_ip and unset_ip\<close>

definition rhel_conf_file :: "NetworkInterface \<Rightarrow> string" where
  "rhel_conf_file nic = ''/etc/sysconfig/network-scripts/ifcfg-'' @ name nic"

definition suse_conf_file :: "NetworkInterface \<Rightarrow> string" where
  "suse_conf_file nic = ''/etc/sysconfig/network/ifcfg-'' @ name nic"

definition backup_of :: "string \<Rightarrow> string" where
  "backup_of conf_file = conf_file @ ''.backup''"

text \<open>
  The text written by the \<^verbatim>\<open>network_conf.write\<close> calls. A true \<open>interface_type\<close>
  is replaced by \<^verbatim>\<open>Ethernet\<close>; a false one is formatted as it is, \<^verbatim>\<open>None\<close> giving
  the text \<^verbatim>\<open>None\<close>.
\<close>

definition rhel_conf_text :: "NetworkInterface \<Rightarrow> string \<Rightarrow> string \<Rightarrow> string option \<Rightarrow> string" where
  "rhel_conf_text nic ipaddr netmask interface_type =
     (let interface_type' =
            (case interface_type of
               None \<Rightarrow> ''None''
             | Some t \<Rightarrow> if t \<noteq> [] then ''Ethernet'' else t)
      in concat
           [''TYPE='' @ interface_type' @ '' \<newline>'',
            ''BOOTPROTO=none \<newline>'',
            ''NAME='' @ name nic @ '' \<newline>'',
            ''DEVICE='' @ name nic @ '' \<newline>'',
            ''ONBOOT=yes \<newline>'',
            ''IPADDR='' @ ipaddr @ '' \<newline>'',
            ''NETMASK='' @ netmask @ '' \<newline>'',
            ''IPV6INIT=yes \<newline>'',
            ''IPV6_AUTOCONF=yes \<newline>'',
            ''IPV6_DEFROUTE=yes''])"

definition suse_conf_text :: "string \<Rightarrow> string \<Rightarrow> string" where
  "suse_conf_text ipaddr netmask =
     concat
       [''IPADDR='' @ ipaddr @ '' \<newline>'',
        ''NETMASK='' @ [CHR 0x27] @ netmask @ [CHR 0x27] @ '' \<newline>'',
        ''IPV6INIT=yes \<newline>'',
        ''IPV6_AUTOCONF=yes \<newline>'',
        ''IPV6_DEFROUTE=yes'']"

definition write_file :: "string \<Rightarrow> string \<Rightarrow> world \<Rightarrow> world" where
  "write_file path content w = w\<lparr>files := (files w)(path \<mapsto> content)\<rparr>"

text \<open>\<open>distro_name\<close> is \<^verbatim>\<open>distro.detect().name\<close>.\<close>

definition set_ip ::
  "string \<Rightarrow> (string \<Rightarrow> int) \<Rightarrow> NetworkInterface \<Rightarrow> string \<Rightarrow> string \<Rightarrow> string option
     \<Rightarrow> world \<Rightarrow> (error + unit) \<times> world" where
  "set_ip distro_name run nic ipaddr netmask interface_type w =
     (if distro_name = ''rhel''
      then (let conf_file = rhel_conf_file nic
            in case move_config_file nic conf_file (backup_of conf_file) w of
                 (Inl e, w1) \<Rightarrow> (Inl e, w1)
               | (Inr u, w1) \<Rightarrow>
                   (let w2 = write_file conf_file
                               (rhel_conf_text nic ipaddr netmask interface_type) w1
                    in case bring_up run nic w2 of
                         (Inl e, w3) \<Rightarrow> (Inl e, w3)
                       | (Inr b, w3) \<Rightarrow> (Inr (), w3)))
      else if distro_name = ''SuSE''
      then (let conf_file = suse_conf_file nic
            in case move_config_file nic conf_file (backup_of conf_file) w of
                 (Inl e, w1) \<Rightarrow> (Inl e, w1)
               | (Inr u, w1) \<Rightarrow>
                   (let w2 = write_file conf_file (suse_conf_text ipaddr netmask) w1
                    in case bring_up run nic w2 of
                         (Inl e, w3) \<Rightarrow> (Inl e, w3)
                       | (Inr b, w3) \<Rightarrow> (Inr (), w3)))
      else (Inl (NWException ''Distro not supported by API , could not set ip''), w))"

text \<open>
  In \<^verbatim>\<open>unset_ip\<close> the local variable \<^verbatim>\<open>conf_file\<close> is assigned by two separate
  \<^verbatim>\<open>if\<close> statements and read after \<^verbatim>\<open>bring_down\<close>; \<open>None\<close> stands for the
  variable not being bound.
\<close>

definition unset_ip ::
  "string \<Rightarrow> (string \<Rightarrow> int) \<Rightarrow> NetworkInterface \<Rightarrow> world \<Rightarrow> (error + unit) \<times> world" where
  "unset_ip distro_name run nic w =
     (let conf_file0 = (if distro_name = ''rhel'' then Some (rhel_conf_file nic) else None);
          conf_file1 = (if distro_name = ''SuSE'' then Some (suse_conf_file nic) else conf_file0)
      in case bring_down run nic w of
           (Inl e, w1) \<Rightarrow> (Inl e, w1)
         | (Inr b, w1) \<Rightarrow>
             (case conf_file1 of
                None \<Rightarrow> (Inl UnboundLocalError, w1)
              | Some conf_file \<Rightarrow> move_config_file nic (backup_of conf_file) conf_file w1))"

text \<open>The configuration file and its text for each of the two supported distributions.\<close>

definition conf_path :: "string \<Rightarrow> NetworkInterface \<Rightarrow> string" where
  "conf_path distro_name nic =
     (if distro_name = ''rhel'' then rhel_conf_file nic else suse_conf_file nic)"

definition conf_text ::
  "string \<Rightarrow> NetworkInterface \<Rightarrow> string \<Rightarrow> string \<Rightarrow> string option \<Rightarrow> string" where
  "conf_text distro_name nic ipaddr netmask interface_type =
     (if distro_name = ''rhel'' then rhel_conf_text nic ipaddr netmask interface_type
      else suse_conf_text ipaddr netmask)"

subsection \<open>ping_check\<close>

text \<open>\<open>option\<close> is \<^verbatim>\<open>None\<close> or a string; the empty string is false in a condition.\<close>

definition ping_cmd :: "NetworkInterface \<Rightarrow> string \<Rightarrow> string \<Rightarrow> string option \<Rightarrow> bool \<Rightarrow> string" where
  "ping_cmd nic peer_ip count option flood =
     (let cmd = ''ping -I '' @ name nic @ '' '' @ peer_ip @ '' -c '' @ count
      in if flood then cmd @ '' -f''
         else (case option of
                 Some opt \<Rightarrow> if opt \<noteq> [] then cmd @ '' '' @ opt else cmd
               | None \<Rightarrow> cmd))"

definition ping_check ::
  "(string \<Rightarrow> int) \<Rightarrow> NetworkInterface \<Rightarrow> string \<Rightarrow> string \<Rightarrow> string option \<Rightarrow> bool
     \<Rightarrow> world \<Rightarrow> (error + bool) \<times> world" where
  "ping_check run nic peer_ip count option flood w =
     (let cmd = ping_cmd nic peer_ip count option flood
      in case process_system run cmd True of
           Inl e \<Rightarrow> (Inl e, ran cmd w)
         | Inr status \<Rightarrow> if status \<noteq> 0 then (Inr False, ran cmd w) else (Inr True, ran cmd w))"

subsection \<open>get_link_status and is_link_up\<close>

text \<open>
  The attributes of a \<^verbatim>\<open>NetworkInterface\<close> object: the two fields set by
  \<^verbatim>\<open>__init__\<close> and the methods of the class. Reading any other attribute raises
  \<open>AttributeError\<close>.
\<close>

definition NetworkInterface_attrs :: "string list" where
  "NetworkInterface_attrs =
     [''name'', ''remote_session'', ''set_ip'', ''unset_ip'', ''ping_check'', ''set_mtu'',
      ''get_link_status'', ''is_link_up'', ''bring_up'', ''bring_down'',
      ''_move_config_file'', ''get_hwaddr'', ''set_hwaddr'', ''add_hwaddr'',
      ''remove_hwaddr'', ''_get_interfce_details'', ''get_ip_address'', ''get_inet_detail'']"

text \<open>
  \<^verbatim>\<open>get_link_status\<close>: the remote branch reads \<^verbatim>\<open>self.session\<close>; the local branch
  reads the file with \<^verbatim>\<open>genio.read_file\<close>, the parameter \<open>read_file\<close>.
\<close>

definition get_link_status ::
  "(string \<Rightarrow> error + string) \<Rightarrow> NetworkInterface \<Rightarrow> error + string" where
  "get_link_status read_file nic =
     (case remote_session nic of
        Some s \<Rightarrow>
          (if ''session'' \<in> set NetworkInterface_attrs
           then s (''cat /sys/class/net/'' @ name nic @ ''/operstate'')
           else Inl AttributeError)
      | None \<Rightarrow> read_file (''/sys/class/net/'' @ name nic @ ''/operstate''))"

text \<open>
  The methods that \<^verbatim>\<open>self.<name>()\<close> can reach with the signature of
  \<^verbatim>\<open>get_link_status\<close>; \<^verbatim>\<open>is_link_up\<close> calls \<^verbatim>\<open>self.get_link_state()\<close>.
\<close>

definition lookup_method ::
  "string \<Rightarrow> error + ((string \<Rightarrow> error + string) \<Rightarrow> NetworkInterface \<Rightarrow> error + string)" where
  "lookup_method attr =
     (if attr \<notin> set NetworkInterface_attrs then Inl AttributeError
      else if attr = ''get_link_status'' then Inr get_link_status
      else Inl TypeError)"

definition is_link_up ::
  "(string \<Rightarrow> error + string) \<Rightarrow> NetworkInterface \<Rightarrow> error + bool" where
  "is_link_up read_file nic =
     (case lookup_method ''get_link_state'' of
        Inl e \<Rightarrow> Inl e
      | Inr get_link_state \<Rightarrow>
          (case get_link_state read_file nic of
             Inl e \<Rightarrow> Inl e
           | Inr state \<Rightarrow> if state \<in> set [''up'', ''UP''] then Inr True else Inr False))"

subsection \<open>set_mtu\<close>

text \<open>
  \<open>system_output\<close> is \<^verbatim>\<open>process.system_output(cmd, shell=True).decode("utf-8")\<close>: it
  raises or gives the decoded output. The predicate given to \<^verbatim>\<open>wait_for\<close> is
  \<^verbatim>\<open>self.is_link_up\<close> called with \<^verbatim>\<open>args=[self.name]\<close>; \<open>poll\<close> gives the outcome of
  each of its calls and \<open>max_polls\<close> the number of calls within the 120 seconds.
  The \<^verbatim>\<open>try\<close> body is \<open>set_mtu_body\<close>; \<^verbatim>\<open>except Exception\<close> turns every exception
  it raises into \<^verbatim>\<open>False\<close>.
\<close>

definition mtu_output ::
  "(string \<Rightarrow> int) \<Rightarrow> (string \<Rightarrow> error + string) \<Rightarrow> NetworkInterface \<Rightarrow> string
     \<Rightarrow> error + string" where
  "mtu_output run system_output nic mtu =
     (let cmd = ''ip link set '' @ name nic @ '' mtu '' @ mtu;
          cmd_mtu = ''ip add show '' @ name nic
      in case remote_session nic of
           Some s \<Rightarrow> (case s cmd of Inl e \<Rightarrow> Inl e | Inr out \<Rightarrow> s cmd_mtu)
         | None \<Rightarrow>
             (case process_system run cmd False of
                Inl e \<Rightarrow> Inl e
              | Inr status \<Rightarrow> system_output cmd_mtu))"

definition set_mtu_body ::
  "(string \<Rightarrow> int) \<Rightarrow> (string \<Rightarrow> error + string) \<Rightarrow> (nat \<Rightarrow> error + bool) \<Rightarrow> nat
     \<Rightarrow> NetworkInterface \<Rightarrow> string \<Rightarrow> error + bool" where
  "set_mtu_body run system_output poll max_polls nic mtu =
     (case mtu_output run system_output nic mtu of
        Inl e \<Rightarrow> Inl e
      | Inr mtu_value \<Rightarrow>
          if contains mtu mtu_value
          then (case wait_for poll 0 max_polls of
                  Inl e \<Rightarrow> Inl e
                | Inr up \<Rightarrow> Inr up)
          else Inr False)"

definition set_mtu ::
  "(string \<Rightarrow> int) \<Rightarrow> (string \<Rightarrow> error + string) \<Rightarrow> (nat \<Rightarrow> error + bool) \<Rightarrow> nat
     \<Rightarrow> NetworkInterface \<Rightarrow> string \<Rightarrow> error + bool" where
  "set_mtu run system_output poll max_polls nic mtu =
     (case set_mtu_body run system_output poll max_polls nic mtu of
        Inl e \<Rightarrow> Inr False
      | Inr b \<Rightarrow> Inr b)"

text \<open>
  The predicate of the source: \<^verbatim>\<open>wait_for\<close> calls \<^verbatim>\<open>self.is_link_up\<close> with the
  arguments \<^verbatim>\<open>args=[self.name]\<close>. The method takes no argument besides
  \<^verbatim>\<open>self\<close>, so a call with an argument raises \<open>TypeError\<close> before the body runs.
\<close>

definition call_is_link_up ::
  "(string \<Rightarrow> error + string) \<Rightarrow> NetworkInterface \<Rightarrow> string list \<Rightarrow> error + bool" where
  "call_is_link_up read_file nic args =
     (if args \<noteq> [] then Inl TypeError else is_link_up read_file nic)"

definition source_poll ::
  "(string \<Rightarrow> error + string) \<Rightarrow> NetworkInterface \<Rightarrow> nat \<Rightarrow> error + bool" where
  "source_poll read_file nic i = call_is_link_up read_file nic [name nic]"

subsection \<open>get_ip_address and get_inet_detail\<close>

text \<open>
  \<^verbatim>\<open>_get_interfce_details\<close>: \<open>system_output\<close> is \<^verbatim>\<open>process.system_output\<close> and
  \<open>json_loads\<close> is \<^verbatim>\<open>json.loads\<close>. The function returns \<^verbatim>\<open>False\<close> when the parsed
  output is false and has no \<^verbatim>\<open>return\<close> otherwise, so that it returns \<^verbatim>\<open>None\<close>.
\<close>

definition get_interfce_details ::
  "(string \<Rightarrow> error + string) \<Rightarrow> (string \<Rightarrow> error + pyval) \<Rightarrow> NetworkInterface \<Rightarrow> string
     \<Rightarrow> error + pyval" where
  "get_interfce_details system_output json_loads nic version =
     (let cmd = ''ip -'' @ version @ '' -j address show '' @ name nic
      in case (case remote_session nic of Some s \<Rightarrow> s cmd | None \<Rightarrow> system_output cmd) of
           Inl e \<Rightarrow> Inl e
         | Inr out_value \<Rightarrow>
             (case json_loads out_value of
                Inl e \<Rightarrow> Inl e
              | Inr output \<Rightarrow> if \<not> truthy output then Inr (PBool False) else Inr PNone))"

text \<open>\<^verbatim>\<open>details['addr_info'][0][field]\<close>, the first exception ending the evaluation.\<close>

definition first_addr_field :: "error + pyval \<Rightarrow> string \<Rightarrow> error + pyval" where
  "first_addr_field details field =
     (case details of
        Inl e \<Rightarrow> Inl e
      | Inr d \<Rightarrow>
          (case py_getitem d (PStr ''addr_info'') of
             Inl e \<Rightarrow> Inl e
           | Inr infos \<Rightarrow>
               (case py_getitem infos (PInt 0) of
                  Inl e \<Rightarrow> Inl e
                | Inr info \<Rightarrow> py_getitem info (PStr field))))"

text \<open>\<^verbatim>\<open>except (IndexError, KeyError): return False\<close>.\<close>

definition except_index_key :: "error + pyval \<Rightarrow> error + pyval" where
  "except_index_key r =
     (case r of
        Inl e \<Rightarrow> if e = IndexError \<or> e = KeyError then Inr (PBool False) else Inl e
      | Inr v \<Rightarrow> Inr v)"

definition get_ip_address ::
  "(string \<Rightarrow> error + string) \<Rightarrow> (string \<Rightarrow> error + pyval) \<Rightarrow> NetworkInterface \<Rightarrow> int
     \<Rightarrow> error + pyval" where
  "get_ip_address system_output json_loads nic version =
     except_index_key
       (if version = 4
        then first_addr_field (get_interfce_details system_output json_loads nic ''4'') ''local''
        else if version = 4
        then first_addr_field (get_interfce_details system_output json_loads nic ''6'') ''local''
        else Inl (NWException ''Version not supported''))"

definition get_inet_detail ::
  "(string \<Rightarrow> error + string) \<Rightarrow> (string \<Rightarrow> error + pyval) \<Rightarrow> NetworkInterface \<Rightarrow> int
     \<Rightarrow> error + pyval" where
  "get_inet_detail system_output json_loads nic version =
     except_index_key
       (if version = 4
        then first_addr_field (get_interfce_details system_output json_loads nic ''4'') ''family''
        else if version = 4
        then first_addr_field (get_interfce_details system_output json_loads nic ''6'') ''family''
        else Inl (NWException ''Version not supported''))"

subsection \<open>Host\<close>

text \<open>
  A host, port or user name is \<^verbatim>\<open>None\<close> or a value; \<^verbatim>\<open>None\<close>, the empty string and
  the port 0 are false in a condition.
\<close>

definition true_str :: "string option \<Rightarrow> bool" where
  "true_str s = (case s of None \<Rightarrow> False | Some v \<Rightarrow> v \<noteq> [])"

definition true_int :: "int option \<Rightarrow> bool" where
  "true_int i = (case i of None \<Rightarrow> False | Some v \<Rightarrow> v \<noteq> 0)"

record Host =
  host :: "string option"
  port :: "int option"
  username :: "string option"
  key :: "string option"
  password :: "string option"
  session :: "session option"
  interfaces :: "NetworkInterface list"

text \<open>What the construction of a host does outside the object, in order.\<close>

datatype effect = OpenSession | RemoteCmd string | ListDir string

text \<open>\<^verbatim>\<open>s.split('\n')\<close>; the argument \<open>cur\<close> is the piece being read, reversed.\<close>

fun split_on :: "char \<Rightarrow> string \<Rightarrow> string \<Rightarrow> string list" where
  "split_on sep cur [] = [rev cur]"
| "split_on sep cur (c # cs) =
     (if c = sep then rev cur # split_on sep [] cs else split_on sep (c # cur) cs)"

text \<open>
  \<^verbatim>\<open>_connect\<close>: \<open>connect\<close> is the constructor of \<^verbatim>\<open>Session\<close>, which raises or gives
  a session.
\<close>

definition connect_host ::
  "(string option \<Rightarrow> int option \<Rightarrow> string option \<Rightarrow> string option \<Rightarrow> string option
      \<Rightarrow> error + session)
     \<Rightarrow> Host \<Rightarrow> (error + Host) \<times> effect list" where
  "connect_host connect h =
     (if true_str (host h) \<and> true_int (port h) \<and> true_str (username h)
      then (case connect (host h) (port h) (username h) (key h) (password h) of
              Inl e \<Rightarrow> (Inl (NWException ''Could not connect to host: ''), [OpenSession])
            | Inr s \<Rightarrow> (Inr (h\<lparr>session := Some s\<rparr>), [OpenSession]))
      else (Inr h, []))"

definition is_remote :: "Host \<Rightarrow> bool" where
  "is_remote h = (case session h of Some s \<Rightarrow> True | None \<Rightarrow> False)"

text \<open>
  \<^verbatim>\<open>_populate_interfaces\<close>: \<open>listdir\<close> is \<^verbatim>\<open>os.listdir\<close>. Every exception of
  the remote listing is caught and leaves the list of names empty.
\<close>

definition populate_interfaces :: "(string \<Rightarrow> string list) \<Rightarrow> Host \<Rightarrow> Host \<times> effect list" where
  "populate_interfaces listdir h =
     (let (names, effs) =
            (if is_remote h
             then (let cmd = ''ls /sys/class/net''
                   in case session h of
                        None \<Rightarrow> ([], [])
                      | Some s \<Rightarrow>
                          (case s cmd of
                             Inl e \<Rightarrow> ([], [RemoteCmd cmd])
                           | Inr out \<Rightarrow>
                               (split_on CHR 0x0A [] (py_strip is_space out), [RemoteCmd cmd])))
             else (listdir ''/sys/class/net'', [ListDir ''/sys/class/net'']))
      in (h\<lparr>interfaces := interfaces h @
                map (\<lambda>n. \<lparr>name = n, remote_session = session h\<rparr>) names\<rparr>, effs))"

definition Host_init ::
  "(string option \<Rightarrow> int option \<Rightarrow> string option \<Rightarrow> string option \<Rightarrow> string option
      \<Rightarrow> error + session)
     \<Rightarrow> (string \<Rightarrow> string list)
     \<Rightarrow> string option \<Rightarrow> int option \<Rightarrow> string option \<Rightarrow> string option \<Rightarrow> string option
     \<Rightarrow> (error + Host) \<times> effect list" where
  "Host_init connect listdir a_host a_port a_username a_key a_password =
     (let h0 = \<lparr>host = a_host, port = a_port, username = a_username, key = a_key,
                password = a_password, session = None, interfaces = []\<rparr>
      in case connect_host connect h0 of
           (Inl e, effs) \<Rightarrow> (Inl e, effs)
         | (Inr h1, effs) \<Rightarrow>
             (let (h2, effs') = populate_interfaces listdir h1 in (Inr h2, effs @ effs')))"

section \<open>Concrete inputs\<close>

text \<open>A disk \<^verbatim>\<open>/dev/sda\<close> with two partitions, as \<^verbatim>\<open>fdisk -l -u\<close> prints it.\<close>

definition example_disks :: "string list" where
  "example_disks = [''/dev/sda'']"

definition example_fdisk :: "string \<Rightarrow> string list" where
  "example_fdisk cmd =
     (if cmd = fdisk_cmd ''/dev/sda''
      then [''Disklabel type: dos\<newline>'',
            ''\<newline>'',
            ''Device     Boot   Start      End  Sectors  Size Id Type\<newline>'',
            ''/dev/sda1  *       2048  1026047  1024000  500M 83 Linux\<newline>'',
            ''/dev/sda2       1026048  2050047  1024000  500M 82 Linux swap / Solaris\<newline>'']
      else [])"

text \<open>An output whose only line starts with the device and has two words.\<close>

definition short_fdisk :: "string \<Rightarrow> string list" where
  "short_fdisk cmd = [''/dev/sda1 2048\<newline>'']"

text \<open>A row of a GPT disk: six words, without boot flag and without Id column.\<close>

definition gpt_fdisk :: "string \<Rightarrow> string list" where
  "gpt_fdisk cmd =
     [''Device     Start     End Sectors  Size Type\<newline>'',
      ''/dev/sdb1   2048 1050623 1048576  512M unknown\<newline>'']"

text \<open>A local interface \<^verbatim>\<open>eth0\<close>, an operstate file that reads \<^verbatim>\<open>up\<close>, commands
  that all exit with status 0 or all with status 1, and a file system that holds one
  configuration file of \<^verbatim>\<open>eth0\<close>.\<close>

definition eth0 :: NetworkInterface where
  "eth0 = \<lparr>name = ''eth0'', remote_session = None\<rparr>"

definition operstate_up :: "string \<Rightarrow> error + string" where
  "operstate_up path = Inr ''up''"

definition run_ok :: "string \<Rightarrow> int" where
  "run_ok cmd = 0"

definition run_fail :: "string \<Rightarrow> int" where
  "run_fail cmd = 1"

definition rhel_world :: world where
  "rhel_world =
     \<lparr>files = [''/etc/sysconfig/network-scripts/ifcfg-eth0'' \<mapsto> ''BOOTPROTO=dhcp''],
      issued = []\<rparr>"

definition rhel_backup_world :: world where
  "rhel_backup_world =
     \<lparr>files = [''/etc/sysconfig/network-scripts/ifcfg-eth0.backup'' \<mapsto> ''BOOTPROTO=dhcp''],
      issued = []\<rparr>"

text \<open>A file system that holds both the configuration file and a backup with another
  content, as two calls of \<^verbatim>\<open>set_ip\<close> leave it.\<close>

definition rhel_both_world :: world where
  "rhel_both_world =
     \<lparr>files = [''/etc/sysconfig/network-scripts/ifcfg-eth0'' \<mapsto> ''BOOTPROTO=dhcp'',
               ''/etc/sysconfig/network-scripts/ifcfg-eth0.backup'' \<mapsto> ''BOOTPROTO=static''],
      issued = []\<rparr>"

text \<open>The output of \<^verbatim>\<open>ip add show eth0\<close> after the MTU is set to 9000, and a
  predicate that returns normally and reports the link up at its third call.\<close>

definition ip_show_9000 :: "string \<Rightarrow> error + string" where
  "ip_show_9000 cmd = Inr ''2: eth0: <BROADCAST,MULTICAST,UP,LOWER_UP> mtu 9000 qdisc mq state UP''"

definition up_at_third :: "nat \<Rightarrow> error + bool" where
  "up_at_third i = Inr (2 \<le> i)"

text \<open>A session constructor that always fails, and a directory with two interfaces.\<close>

definition no_connect ::
  "string option \<Rightarrow> int option \<Rightarrow> string option \<Rightarrow> string option \<Rightarrow> string option
     \<Rightarrow> error + session" where
  "no_connect h p u k pw = Inl OtherError"

definition two_interfaces :: "string \<Rightarrow> string list" where
  "two_interfaces path = [''lo'', ''eth0'']"

section \<open>Properties of disk.py\<close>

subsection \<open>The loops of get_partition_info\<close>

text \<open>The loop that builds \<open>type_data\<close> joins the tokens from index 7 on with single
  spaces, and the loop that fills \<open>values\<close> copies the tokens after the first.\<close>

lemma foldl_sp: "foldl (\<lambda>t x. t @ sep @ x) acc xs = acc @ concat (map (\<lambda>x. sep @ x) xs)"
  by (induction xs arbitrary: acc) simp_all

lemma join_sp_Cons: "join_sp (x # xs) = x @ concat (map (\<lambda>x. '' '' @ x) xs)"
  by (induction xs arbitrary: x) simp_all

lemma range_drop: "map (\<lambda>data. value ! (k + data)) [1..<length value - k] = drop (Suc k) value"
  by (rule nth_equalityI) (auto simp: add.commute)

lemma merge_loop:
  assumes "7 < length value"
  shows "foldl (\<lambda>type_data data. type_data @ '' '' @ value ! (7 + data)) (value ! 7)
           [1..<length value - 7] = join_sp (drop 7 value)"
proof -
  have "foldl (\<lambda>t data. t @ '' '' @ value ! (7 + data)) (value ! 7) [1..<length value - 7]
      = foldl (\<lambda>t x. t @ '' '' @ x) (value ! 7) (map (\<lambda>data. value ! (7 + data)) [1..<length value - 7])"
    by (simp add: foldl_map)
  also have "\<dots> = value ! 7 @ concat (map (\<lambda>x. '' '' @ x) (drop 8 value))"
    using range_drop [of "value" 7] foldl_sp [of "'' ''" "value ! 7" "drop 8 value"] by simp
  also have "\<dots> = join_sp (value ! 7 # drop 8 value)"
    by (simp add: join_sp_Cons)
  also have "value ! 7 # drop 8 value = drop 7 value"
    using assms Cons_nth_drop_Suc [of 7 "value"] by simp
  finally show ?thesis .
qed

lemma copy_loop: "map (\<lambda>data. value ! data) [1..<length value] = tl value"
  by (rule nth_equalityI) (auto simp: nth_tl)

subsection \<open>A matching line gives the record of the specification\<close>

lemma insert_boot_spec:
  "insert_boot toks = (if length toks < 2 then Inl IndexError else Inr (spec_fields toks))"
proof (cases toks)
  case Nil
  then show ?thesis by (simp add: insert_boot_def item_def)
next
  case (Cons d ts)
  show ?thesis
  proof (cases ts)
    case Nil
    with Cons show ?thesis by (simp add: insert_boot_def item_def)
  next
    case (Cons b rest)
    have "map (\<lambda>data. toks ! data) [1..<length toks] = tl toks" by (rule copy_loop)
    with Cons \<open>toks = d # ts\<close> show ?thesis
      by (simp add: insert_boot_def item_def Let_def del: upt_Suc)
  qed
qed

lemma enough_pieces_iff:
  "enough_pieces toks = (2 \<le> length toks \<and> 8 \<le> length (spec_fields toks))"
  by (cases toks rule: spec_fields.cases) auto

lemma build_merge:
  assumes "8 \<le> length f"
  shows "build_dict (merge_type f) =
     Inr [(''Device'', f ! 0), (''Boot'', f ! 1), (''Start'', f ! 2), (''End'', f ! 3),
          (''Sectors'', f ! 4), (''Size'', f ! 5), (''Id'', f ! 6),
          (''Type'', py_strip (\<lambda>c. c = CHR '' '') (join_sp (drop 7 f)))]"
proof -
  from assms obtain a b c d e g h i r where f: "f = a # b # c # d # e # g # h # i # r"
    by (auto simp: le_Suc_eq Suc_le_length_iff numeral_eq_Suc)
  have m: "merge_type f = f[7 := py_strip (\<lambda>c. c = CHR '' '') (join_sp (drop 7 f))]"
    using assms merge_loop [of f] by (simp add: merge_type_def Let_def)
  show ?thesis
    unfolding m by (simp add: f build_dict_def partition_keys_def)
qed

lemma build_short: "length f < 8 \<Longrightarrow> build_dict (merge_type f) = Inl IndexError"
  by (simp add: build_dict_def merge_type_def Let_def)

lemma parse_line_spec:
  "parse_line line =
     (if enough_pieces (re_split_ws line) then Inr (spec_record line) else Inl IndexError)"
proof (cases "length (re_split_ws line) < 2")
  case True
  then show ?thesis by (simp add: parse_line_def insert_boot_spec enough_pieces_iff)
next
  case False
  show ?thesis
  proof (cases "8 \<le> length (spec_fields (re_split_ws line))")
    case True
    with False show ?thesis
      by (simp add: parse_line_def insert_boot_spec enough_pieces_iff build_merge spec_record_def Let_def)
  next
    case False
    with \<open>\<not> length (re_split_ws line) < 2\<close> show ?thesis
      by (simp add: parse_line_def insert_boot_spec enough_pieces_iff build_short)
  qed
qed

subsection \<open>The first matching line decides the result\<close>

lemma scan_lines_skip:
  "\<forall>l \<in> set pre. \<not> startswith l device \<Longrightarrow> scan_lines device (pre @ rest) = scan_lines device rest"
  by (induction pre) simp_all

lemma scan_lines_first:
  assumes "\<forall>l \<in> set pre. \<not> startswith l device" and "startswith line device"
  shows "scan_lines device (pre @ line # post) =
     (if enough_pieces (re_split_ws line) then Inr (Some (spec_record line)) else Inl IndexError)"
  using assms by (simp add: scan_lines_skip parse_line_spec)

lemma get_partition_info_first_line:
  assumes "device \<notin> set disks"
    and "popen_lines (fdisk_cmd (py_rstrip is_digit device)) = pre @ line # post"
    and "\<forall>l \<in> set pre. \<not> startswith l device"
    and "startswith line device"
  shows "get_partition_info disks popen_lines device =
     (if enough_pieces (re_split_ws line) then Inr (Some (spec_record line))
      else Inl IndexError)"
  using assms by (simp add: get_partition_info_def scan_lines_first)

text \<open>
  Claim C5, as amended. For a device that is not a whole disk, \<^verbatim>\<open>get_partition_info\<close>
  takes the first line of the fdisk output that starts with the device string, whatever
  lines follow it. Provided \<^verbatim>\<open>re.split\<close> cuts that line into at least seven pieces
  (at least eight when the second piece is \<^verbatim>\<open>*\<close>), the empty piece after the final
  newline counting as one, the result is the record with the keys Device, Boot, Start,
  End, Sectors, Size, Id and Type read from that line, in which every piece from the
  eighth field on is merged into Type.
\<close>

theorem get_partition_info_first_match:
  assumes "device \<notin> set disks"
    and "popen_lines (fdisk_cmd (py_rstrip is_digit device)) = pre @ line # post"
    and "\<forall>l \<in> set pre. \<not> startswith l device"
    and "startswith line device"
    and "enough_pieces (re_split_ws line)"
  shows "get_partition_info disks popen_lines device = Inr (Some (spec_record line))"
  using assms by (simp add: get_partition_info_def scan_lines_first)

lemma split_sda2:
  "re_split_ws ''/dev/sda2       1026048  2050047  1024000  500M 82 Linux swap / Solaris\<newline>'' =
     [''/dev/sda2'', ''1026048'', ''2050047'', ''1024000'', ''500M'', ''82'',
      ''Linux'', ''swap'', ''/'', ''Solaris'', []]"
  by (simp add: re_split_ws_def is_space_def)

text \<open>The partition \<^verbatim>\<open>/dev/sda2\<close> of the example, whose type is \<^verbatim>\<open>Linux swap / Solaris\<close>.\<close>

theorem get_partition_info_first_match_witness:
  "get_partition_info example_disks example_fdisk ''/dev/sda2'' =
     Inr (Some [(''Device'', ''/dev/sda2''), (''Boot'', []), (''Start'', ''1026048''),
                (''End'', ''2050047''), (''Sectors'', ''1024000''), (''Size'', ''500M''),
                (''Id'', ''82''), (''Type'', ''Linux swap / Solaris'')])"
proof -
  let ?pre = "[''Disklabel type: dos\<newline>'', ''\<newline>'',
               ''Device     Boot   Start      End  Sectors  Size Id Type\<newline>'',
               ''/dev/sda1  *       2048  1026047  1024000  500M 83 Linux\<newline>'']"
  let ?line = "''/dev/sda2       1026048  2050047  1024000  500M 82 Linux swap / Solaris\<newline>''"
  have h1: "''/dev/sda2'' \<notin> set example_disks"
    by (simp add: example_disks_def)
  have h2: "example_fdisk (fdisk_cmd (py_rstrip is_digit ''/dev/sda2'')) = ?pre @ ?line # []"
    by (simp add: example_fdisk_def py_rstrip_def is_digit_def)
  have h3: "\<forall>l \<in> set ?pre. \<not> startswith l ''/dev/sda2''"
    by (simp add: startswith_def)
  have h4: "startswith ?line ''/dev/sda2''"
    by (simp add: startswith_def)
  have h5: "enough_pieces (re_split_ws ?line)"
    by (simp add: split_sda2)
  show ?thesis
    using get_partition_info_first_match
      [where popen_lines = example_fdisk and pre = ?pre and post = "[]", OF h1 h2 h3 h4 h5]
    by (simp add: split_sda2 spec_record_def py_strip_def py_rstrip_def py_lstrip_def)
qed

text \<open>
  The boundary of the condition. A row of six words that ends in a newline is cut into
  seven pieces, the last one empty: the function returns a record, whose Type is empty.
\<close>

lemma split_gpt_row:
  "re_split_ws ''/dev/sdb1   2048 1050623 1048576  512M unknown\<newline>'' =
     [''/dev/sdb1'', ''2048'', ''1050623'', ''1048576'', ''512M'', ''unknown'', []]"
  by (simp add: re_split_ws_def is_space_def)

lemma get_partition_info_gpt_row:
  "get_partition_info example_disks gpt_fdisk ''/dev/sdb1'' =
     Inr (Some [(''Device'', ''/dev/sdb1''), (''Boot'', []), (''Start'', ''2048''),
                (''End'', ''1050623''), (''Sectors'', ''1048576''), (''Size'', ''512M''),
                (''Id'', ''unknown''), (''Type'', [])])"
proof -
  let ?pre = "[''Device     Start     End Sectors  Size Type\<newline>'']"
  let ?line = "''/dev/sdb1   2048 1050623 1048576  512M unknown\<newline>''"
  have h1: "''/dev/sdb1'' \<notin> set example_disks"
    by (simp add: example_disks_def)
  have h2: "gpt_fdisk (fdisk_cmd (py_rstrip is_digit ''/dev/sdb1'')) = ?pre @ ?line # []"
    by (simp add: gpt_fdisk_def)
  have h3: "\<forall>l \<in> set ?pre. \<not> startswith l ''/dev/sdb1''"
    by (simp add: startswith_def)
  have h4: "startswith ?line ''/dev/sdb1''"
    by (simp add: startswith_def)
  show ?thesis
    using get_partition_info_first_line
      [where popen_lines = gpt_fdisk and pre = ?pre and post = "[]", OF h1 h2 h3 h4]
    by (simp add: split_gpt_row spec_record_def py_strip_def py_rstrip_def py_lstrip_def)
qed

text \<open>
  Claim C5 as it is stated does not hold for every output: a line that starts with the
  device and is cut into too few pieces gives no record, the function raises
  \<open>IndexError\<close>.
\<close>

theorem get_partition_info_short_line_counterexample:
  "''/dev/sda1'' \<notin> set example_disks \<and>
   startswith (hd (short_fdisk (fdisk_cmd ''/dev/sda''))) ''/dev/sda1'' \<and>
   get_partition_info example_disks short_fdisk ''/dev/sda1'' = Inl IndexError"
  by (simp add: example_disks_def short_fdisk_def startswith_def get_partition_info_def
      parse_line_def re_split_ws_def is_space_def insert_boot_def item_def merge_type_def build_dict_def)

text \<open>
  Claim C10. For a device that is not a whole disk, when no line of the fdisk output
  starts with the device string, \<^verbatim>\<open>get_partition_info\<close> returns \<^verbatim>\<open>None\<close> and raises
  nothing.
\<close>

theorem get_partition_info_no_match:
  assumes "device \<notin> set disks"
    and "\<forall>l \<in> set (popen_lines (fdisk_cmd (py_rstrip is_digit device))). \<not> startswith l device"
  shows "get_partition_info disks popen_lines device = Inr None"
  using assms scan_lines_skip [of "popen_lines (fdisk_cmd (py_rstrip is_digit device))" device "[]"]
  by (simp add: get_partition_info_def)

text \<open>The example disk has no third partition.\<close>

theorem get_partition_info_no_match_witness:
  "get_partition_info example_disks example_fdisk ''/dev/sda3'' = Inr None"
  using get_partition_info_no_match [of "''/dev/sda3''" example_disks example_fdisk]
  by (simp add: example_disks_def example_fdisk_def startswith_def py_rstrip_def is_digit_def)

subsection \<open>is_linux_fs_type\<close>

lemma example_sda1:
  "get_partition_info example_disks example_fdisk ''/dev/sda1'' =
     Inr (Some [(''Device'', ''/dev/sda1''), (''Boot'', ''*''), (''Start'', ''2048''),
                (''End'', ''1026047''), (''Sectors'', ''1024000''), (''Size'', ''500M''),
                (''Id'', ''83''), (''Type'', ''Linux'')])"
  by (simp add: get_partition_info_def example_disks_def example_fdisk_def startswith_def
      py_rstrip_def is_digit_def parse_line_def re_split_ws_def is_space_def insert_boot_def
      item_def merge_type_def build_dict_def partition_keys_def py_strip_def py_lstrip_def)

text \<open>
  Claim C4. \<^verbatim>\<open>is_linux_fs_type(device)\<close> returns \<^verbatim>\<open>True\<close> exactly when
  \<^verbatim>\<open>get_partition_info(device)\<close> gives a record whose Type equals the integer 83, and
  \<^verbatim>\<open>False\<close> exactly when it gives a record whose Type does not.
\<close>

theorem is_linux_fs_type_iff:
  "(is_linux_fs_type disks popen_lines device = Inr True) =
     (\<exists>d t. get_partition_info disks popen_lines device = Inr (Some d) \<and>
            dict_get d ''Type'' = Inr t \<and> str_eq_int t 83) \<and>
   (is_linux_fs_type disks popen_lines device = Inr False) =
     (\<exists>d t. get_partition_info disks popen_lines device = Inr (Some d) \<and>
            dict_get d ''Type'' = Inr t \<and> \<not> str_eq_int t 83)"
  by (auto simp: is_linux_fs_type_def split: sum.splits option.splits)

text \<open>The first partition of the example has Id 83 and Type \<^verbatim>\<open>Linux\<close>; the Type is a
  string, which is not the integer 83.\<close>

theorem is_linux_fs_type_iff_witness:
  "is_linux_fs_type example_disks example_fdisk ''/dev/sda1'' = Inr False"
proof -
  have "dict_get [(''Device'', ''/dev/sda1''), (''Boot'', ''*''), (''Start'', ''2048''),
                  (''End'', ''1026047''), (''Sectors'', ''1024000''), (''Size'', ''500M''),
                  (''Id'', ''83''), (''Type'', ''Linux'')] ''Type'' = Inr ''Linux''"
    by (simp add: dict_get_def)
  moreover have "\<not> str_eq_int ''Linux'' 83"
    by (simp add: str_eq_int_def)
  ultimately show ?thesis
    using is_linux_fs_type_iff [of example_disks example_fdisk "''/dev/sda1''"] example_sda1
    by blast
qed

text \<open>The Type of a record is a string whatever the line, so the result is never \<^verbatim>\<open>True\<close>.\<close>

lemma is_linux_fs_type_never_true:
  "is_linux_fs_type disks popen_lines device \<noteq> Inr True"
  by (auto simp: is_linux_fs_type_def str_eq_int_def split: sum.splits option.splits)

section \<open>Properties of configure_network.py\<close>

subsection \<open>is_link_up\<close>

lemma get_link_state_missing: "lookup_method ''get_link_state'' = Inl AttributeError"
  by (simp add: lookup_method_def NetworkInterface_attrs_def)

lemma is_link_up_always_raises: "is_link_up read_file nic = Inl AttributeError"
  by (simp add: is_link_up_def get_link_state_missing)

text \<open>
  Claim C1 asks \<^verbatim>\<open>is_link_up\<close> to return \<^verbatim>\<open>True\<close> when the operstate file reads
  \<^verbatim>\<open>up\<close>. For the local interface \<^verbatim>\<open>eth0\<close> with such a file, \<^verbatim>\<open>get_link_status\<close>
  reads \<^verbatim>\<open>up\<close>, and \<^verbatim>\<open>is_link_up\<close> raises \<open>AttributeError\<close>: it calls
  \<^verbatim>\<open>get_link_state\<close>, which the class does not define.
\<close>

theorem is_link_up_operstate_up:
  "get_link_status operstate_up eth0 = Inr ''up'' \<and>
   is_link_up operstate_up eth0 = Inl AttributeError"
  by (simp add: get_link_status_def operstate_up_def eth0_def is_link_up_def
      get_link_state_missing)

subsection \<open>get_ip_address and get_inet_detail\<close>

text \<open>
  Claim C2 asks that version 6 never raises the error of an unsupported version. Both
  branches of the dispatch test \<^verbatim>\<open>version == 4\<close>, so for version 6
  \<^verbatim>\<open>get_ip_address\<close> and \<^verbatim>\<open>get_inet_detail\<close> raise it, whatever the interface and
  the output of the command.
\<close>

theorem version_6_not_supported:
  "get_ip_address system_output json_loads nic 6 = Inl (NWException ''Version not supported'') \<and>
   get_inet_detail system_output json_loads nic 6 = Inl (NWException ''Version not supported'')"
  by (simp add: get_ip_address_def get_inet_detail_def except_index_key_def)

text \<open>
  For version 4, \<^verbatim>\<open>_get_interfce_details\<close> returns \<^verbatim>\<open>None\<close> or \<^verbatim>\<open>False\<close>, and
  subscripting either raises \<open>TypeError\<close>, which the handler does not catch: an empty
  address list gives an exception, not the value \<^verbatim>\<open>False\<close>.
\<close>

lemma details_not_subscriptable:
  "get_interfce_details system_output json_loads nic v = Inr d \<Longrightarrow>
   py_getitem d k = Inl TypeError"
  by (auto simp: get_interfce_details_def Let_def split: sum.splits option.splits if_splits)

lemma version_4_type_error:
  assumes "get_interfce_details system_output json_loads nic ''4'' = Inr d"
  shows "get_ip_address system_output json_loads nic 4 = Inl TypeError"
    and "get_inet_detail system_output json_loads nic 4 = Inl TypeError"
  using assms details_not_subscriptable [OF assms]
  by (simp_all add: get_ip_address_def get_inet_detail_def first_addr_field_def
      except_index_key_def)

subsection \<open>set_mtu\<close>

text \<open>
  \<^verbatim>\<open>wait_for\<close> gives \<^verbatim>\<open>True\<close> exactly when some call of the predicate within the
  wait returns \<^verbatim>\<open>True\<close> and every call before it returned \<^verbatim>\<open>False\<close> without raising.
\<close>

lemma wait_for_True_iff:
  "wait_for poll i n = Inr True \<longleftrightarrow>
     (\<exists>j. i \<le> j \<and> j < i + n \<and> poll j = Inr True \<and> (\<forall>k. i \<le> k \<and> k < j \<longrightarrow> poll k = Inr False))"
proof (induction n arbitrary: i)
  case 0
  then show ?case by simp
next
  case (Suc n)
  show ?case
  proof (cases "poll i")
    case (Inl e)
    have "\<not> (\<exists>j. i \<le> j \<and> j < i + Suc n \<and> poll j = Inr True \<and>
              (\<forall>k. i \<le> k \<and> k < j \<longrightarrow> poll k = Inr False))"
    proof
      assume "\<exists>j. i \<le> j \<and> j < i + Suc n \<and> poll j = Inr True \<and>
              (\<forall>k. i \<le> k \<and> k < j \<longrightarrow> poll k = Inr False)"
      then obtain j where j: "i \<le> j" "poll j = Inr True"
        "\<forall>k. i \<le> k \<and> k < j \<longrightarrow> poll k = Inr False" by blast
      show False
      proof (cases "j = i")
        case True
        with j(2) Inl show False by simp
      next
        case False
        with j(1) have "i < j" by simp
        with j(3) have "poll i = Inr False" by simp
        with Inl show False by simp
      qed
    qed
    with Inl show ?thesis by simp
  next
    case (Inr b)
    show ?thesis
    proof (cases b)
      case True
      with Inr have "wait_for poll i (Suc n) = Inr True" by simp
      moreover from True Inr have "i \<le> i \<and> i < i + Suc n \<and> poll i = Inr True \<and>
          (\<forall>k. i \<le> k \<and> k < i \<longrightarrow> poll k = Inr False)" by auto
      ultimately show ?thesis by blast
    next
      case False
      with Inr have w: "wait_for poll i (Suc n) = wait_for poll (Suc i) n" by simp
      have "(\<exists>j. Suc i \<le> j \<and> j < Suc i + n \<and> poll j = Inr True \<and>
                (\<forall>k. Suc i \<le> k \<and> k < j \<longrightarrow> poll k = Inr False)) \<longleftrightarrow>
            (\<exists>j. i \<le> j \<and> j < i + Suc n \<and> poll j = Inr True \<and>
                (\<forall>k. i \<le> k \<and> k < j \<longrightarrow> poll k = Inr False))"
        (is "?L \<longleftrightarrow> ?R")
      proof
        assume ?L
        then obtain j where j: "Suc i \<le> j" "j < Suc i + n" "poll j = Inr True"
          "\<forall>k. Suc i \<le> k \<and> k < j \<longrightarrow> poll k = Inr False" by blast
        have "\<forall>k. i \<le> k \<and> k < j \<longrightarrow> poll k = Inr False"
        proof (intro allI impI)
          fix k assume k: "i \<le> k \<and> k < j"
          show "poll k = Inr False"
          proof (cases "k = i")
            case True
            with Inr False show ?thesis by simp
          next
            case False
            with k have "Suc i \<le> k \<and> k < j" by simp
            with j(4) show ?thesis by blast
          qed
        qed
        with j(1-3) show ?R by (intro exI [of _ j]) simp
      next
        assume ?R
        then obtain j where j: "i \<le> j" "j < i + Suc n" "poll j = Inr True"
          "\<forall>k. i \<le> k \<and> k < j \<longrightarrow> poll k = Inr False" by blast
        from j(3) Inr False have "j \<noteq> i" by auto
        with j(1) have "Suc i \<le> j" by simp
        moreover from j(4) have "\<forall>k. Suc i \<le> k \<and> k < j \<longrightarrow> poll k = Inr False" by simp
        ultimately show ?L using j(2,3) by (intro exI [of _ j]) simp
      qed
      with w Suc.IH [of "Suc i"] show ?thesis by simp
    qed
  qed
qed

lemma wait_for_from_0:
  "wait_for poll 0 n = Inr True \<longleftrightarrow>
     (\<exists>j<n. poll j = Inr True \<and> (\<forall>i<j. poll i = Inr False))"
  using wait_for_True_iff [of poll 0 n] by simp

text \<open>\<^verbatim>\<open>mtu in mtu_value\<close> holds exactly when the value has the MTU string as a segment.\<close>

lemma contains_iff: "contains sub s \<longleftrightarrow> (\<exists>pre post. s = pre @ sub @ post)"
proof (induction s)
  case Nil
  then show ?case by simp
next
  case (Cons c cs)
  have "sublist sub (c # cs) \<longleftrightarrow> prefix sub (c # cs) \<or> sublist sub cs"
    by (rule sublist_Cons_right)
  with Cons show ?case by (simp add: sublist_def)
qed

text \<open>The two commands succeed and give the output \<open>mtu_value\<close>: on a remote interface
  both go through the session, on a local one the first must exit with status 0.\<close>

lemma mtu_output_iff:
  "mtu_output run system_output nic mtu = Inr mtu_value \<longleftrightarrow>
     (case remote_session nic of
        Some s \<Rightarrow> (\<exists>out. s (''ip link set '' @ name nic @ '' mtu '' @ mtu) = Inr out) \<and>
                  s (''ip add show '' @ name nic) = Inr mtu_value
      | None \<Rightarrow> run (''ip link set '' @ name nic @ '' mtu '' @ mtu) = 0 \<and>
                system_output (''ip add show '' @ name nic) = Inr mtu_value)"
  by (auto simp: mtu_output_def process_system_def Let_def split: option.splits sum.splits)

text \<open>
  Claim C3. \<^verbatim>\<open>set_mtu\<close> always returns a boolean, so that no exception reaches the
  caller. It returns \<^verbatim>\<open>True\<close> exactly when the command that sets the MTU and the
  re-read of \<^verbatim>\<open>ip add show\<close> both succeed, the MTU string occurs in the output read
  back, and within the wait the link is reported up by a call of the predicate before
  which every call returned \<^verbatim>\<open>False\<close>; in every other case, in particular when a
  command, the re-read or a call of the predicate raises, it returns \<^verbatim>\<open>False\<close>.
\<close>

theorem set_mtu_result:
  "set_mtu run system_output poll max_polls nic mtu =
     Inr ((\<exists>mtu_value.
             (case remote_session nic of
                Some s \<Rightarrow> (\<exists>out. s (''ip link set '' @ name nic @ '' mtu '' @ mtu) = Inr out) \<and>
                          s (''ip add show '' @ name nic) = Inr mtu_value
              | None \<Rightarrow> run (''ip link set '' @ name nic @ '' mtu '' @ mtu) = 0 \<and>
                        system_output (''ip add show '' @ name nic) = Inr mtu_value) \<and>
             (\<exists>pre post. mtu_value = pre @ mtu @ post)) \<and>
          (\<exists>j<max_polls. poll j = Inr True \<and> (\<forall>i<j. poll i = Inr False)))"
proof (cases "mtu_output run system_output nic mtu")
  case (Inl e)
  then have "\<not> (\<exists>mtu_value. mtu_output run system_output nic mtu = Inr mtu_value \<and>
                  (\<exists>pre post. mtu_value = pre @ mtu @ post))"
    by simp
  moreover from Inl have "set_mtu run system_output poll max_polls nic mtu = Inr False"
    by (simp add: set_mtu_def set_mtu_body_def)
  ultimately show ?thesis
    by (simp add: mtu_output_iff)
next
  case (Inr v)
  have ex: "(\<exists>mtu_value. mtu_output run system_output nic mtu = Inr mtu_value \<and>
              (\<exists>pre post. mtu_value = pre @ mtu @ post)) \<longleftrightarrow> contains mtu v"
    using Inr by (simp add: contains_iff)
  have "set_mtu run system_output poll max_polls nic mtu =
      Inr (contains mtu v \<and> wait_for poll 0 max_polls = Inr True)"
    using Inr by (auto simp: set_mtu_def set_mtu_body_def split: sum.splits)
  with ex show ?thesis
    by (simp add: mtu_output_iff wait_for_from_0)
qed

lemma source_poll_raises: "source_poll read_file nic i = Inl TypeError"
  by (simp add: source_poll_def call_is_link_up_def)

text \<open>
  With the predicate of the source, on \<^verbatim>\<open>eth0\<close> with an output that shows the MTU
  9000 that was set: the first call of the predicate raises, and the result is
  \<^verbatim>\<open>False\<close>.
\<close>

theorem set_mtu_result_witness:
  "set_mtu run_ok ip_show_9000 (source_poll operstate_up eth0) 120 eth0 ''9000'' = Inr False"
  using set_mtu_result [of run_ok ip_show_9000 "source_poll operstate_up eth0" 120 eth0 "''9000''"]
  by (simp add: source_poll_raises)

text \<open>With the predicate of the source the result is \<^verbatim>\<open>False\<close> whatever the arguments.\<close>

lemma set_mtu_source_predicate:
  "set_mtu run system_output (source_poll read_file nic') max_polls nic mtu = Inr False"
proof -
  have "wait_for (source_poll read_file nic') 0 max_polls \<noteq> Inr True"
    by (simp add: wait_for_from_0 source_poll_raises)
  then show ?thesis
    by (auto simp: set_mtu_def set_mtu_body_def split: sum.splits)
qed

text \<open>
  With a predicate that returns normally, which the one of the source does not, and
  reports the link up at its third call, the same input gives \<^verbatim>\<open>True\<close>.
\<close>

lemma set_mtu_reporting_predicate:
  "set_mtu run_ok ip_show_9000 up_at_third 120 eth0 ''9000'' = Inr True"
proof -
  have m: "mtu_output run_ok ip_show_9000 eth0 ''9000'' =
      Inr ''2: eth0: <BROADCAST,MULTICAST,UP,LOWER_UP> mtu 9000 qdisc mq state UP''"
    by (simp add: mtu_output_def process_system_def run_ok_def ip_show_9000_def eth0_def)
  have w: "wait_for up_at_third 0 120 = Inr True"
    by (simp add: up_at_third_def numeral_eq_Suc)
  show ?thesis
    by (simp add: set_mtu_def set_mtu_body_def m w)
qed

subsection \<open>ping_check\<close>

text \<open>
  Claim C6. For every interface, peer, count, option and flood flag, \<^verbatim>\<open>ping_check\<close>
  runs the ping command once and returns \<^verbatim>\<open>True\<close> when its exit status is zero and
  \<^verbatim>\<open>False\<close> otherwise; it raises for no exit status.
\<close>

theorem ping_check_exit_status:
  "ping_check run nic peer_ip count option flood w =
     (Inr (run (ping_cmd nic peer_ip count option flood) = 0),
      ran (ping_cmd nic peer_ip count option flood) w)"
  by (simp add: ping_check_def process_system_def Let_def)

text \<open>The command with neither flag, flooding, and with an option; a failing ping.\<close>

lemma ping_check_examples:
  "ping_cmd eth0 ''10.0.0.1'' ''3'' None False = ''ping -I eth0 10.0.0.1 -c 3''"
  "ping_cmd eth0 ''10.0.0.1'' ''3'' (Some ''-s 64'') True = ''ping -I eth0 10.0.0.1 -c 3 -f''"
  "ping_cmd eth0 ''10.0.0.1'' ''3'' (Some ''-s 64'') False = ''ping -I eth0 10.0.0.1 -c 3 -s 64''"
  "fst (ping_check run_fail eth0 ''10.0.0.1'' ''3'' None False w) = Inr False"
  "fst (ping_check run_ok eth0 ''10.0.0.1'' ''3'' None True w) = Inr True"
  by (simp_all add: ping_cmd_def ping_check_def process_system_def eth0_def run_fail_def
      run_ok_def)

subsection \<open>set_ip and unset_ip\<close>

lemma backup_differs: "backup_of conf_file \<noteq> conf_file" "conf_file \<noteq> backup_of conf_file"
  by (simp_all add: backup_of_def)

lemma bring_up_ok:
  "run (''ifup '' @ name nic) = 0 \<Longrightarrow> bring_up run nic w = (Inr True, ran (''ifup '' @ name nic) w)"
  by (simp add: bring_up_def process_system_def)

lemma bring_down_ok:
  "run (''ifdown '' @ name nic) = 0 \<Longrightarrow>
   bring_down run nic w = (Inr True, ran (''ifdown '' @ name nic) w)"
  by (simp add: bring_down_def process_system_def)

lemma bring_down_fails:
  "run (''ifdown '' @ name nic) \<noteq> 0 \<Longrightarrow>
   bring_down run nic w = (Inl (NWException ''ifdown fails: ''), ran (''ifdown '' @ name nic) w)"
  by (simp add: bring_down_def process_system_def)

lemma files_ran [simp]: "files (ran cmd w) = files w"
  by (simp add: ran_def)

lemma move_config_file_ok:
  "files w src = Some content \<Longrightarrow>
   move_config_file nic src dest w =
     (Inr (), w\<lparr>files := ((files w)(src := None))(dest \<mapsto> content)\<rparr>)"
  by (simp add: move_config_file_def)

lemma set_ip_ok:
  assumes "distro_name = ''rhel'' \<or> distro_name = ''SuSE''"
    and "run (''ifup '' @ name nic) = 0"
    and "files w (conf_path distro_name nic) = Some original"
  shows "fst (set_ip distro_name run nic ipaddr netmask interface_type w) = Inr ()"
    and "files (snd (set_ip distro_name run nic ipaddr netmask interface_type w)) =
           (files w)(backup_of (conf_path distro_name nic) \<mapsto> original,
                     conf_path distro_name nic \<mapsto>
                       conf_text distro_name nic ipaddr netmask interface_type)"
  using assms
  by (auto simp: set_ip_def conf_path_def conf_text_def Let_def move_config_file_ok
      bring_up_ok write_file_def backup_differs)

lemma unset_ip_ok:
  assumes "distro_name = ''rhel'' \<or> distro_name = ''SuSE''"
    and "run (''ifdown '' @ name nic) = 0"
    and "files w (backup_of (conf_path distro_name nic)) = Some saved"
  shows "fst (unset_ip distro_name run nic w) = Inr ()"
    and "files (snd (unset_ip distro_name run nic w)) =
           (files w)(backup_of (conf_path distro_name nic) := None,
                     conf_path distro_name nic \<mapsto> saved)"
  using assms
  by (auto simp: unset_ip_def conf_path_def Let_def move_config_file_ok bring_down_ok)


text \<open>
  The files after each of the two sequences, whatever the files were before: after
  \<^verbatim>\<open>set_ip\<close> and \<^verbatim>\<open>unset_ip\<close> the backup path is absent, and after \<^verbatim>\<open>unset_ip\<close>
  and \<^verbatim>\<open>set_ip\<close> the configuration path holds the text that \<^verbatim>\<open>set_ip\<close> writes.
\<close>

lemma set_ip_unset_ip_files:
  assumes "distro_name = ''rhel'' \<or> distro_name = ''SuSE''"
    and "run (''ifup '' @ name nic) = 0"
    and "run (''ifdown '' @ name nic) = 0"
  shows
    "(files w (conf_path distro_name nic) = Some original \<longrightarrow>
        (let r1 = set_ip distro_name run nic ipaddr netmask interface_type w;
             r2 = unset_ip distro_name run nic (snd r1)
         in fst r1 = Inr () \<and> fst r2 = Inr () \<and>
            files (snd r1) (backup_of (conf_path distro_name nic)) = Some original \<and>
            files (snd r2) (conf_path distro_name nic) = Some original \<and>
            files (snd r2) = (files w)(backup_of (conf_path distro_name nic) := None))) \<and>
     (files w (backup_of (conf_path distro_name nic)) = Some saved \<longrightarrow>
        (let r1 = unset_ip distro_name run nic w;
             r2 = set_ip distro_name run nic ipaddr netmask interface_type (snd r1)
         in fst r1 = Inr () \<and> fst r2 = Inr () \<and>
            files (snd r1) (conf_path distro_name nic) = Some saved \<and>
            files (snd r2) (backup_of (conf_path distro_name nic)) = Some saved \<and>
            files (snd r2) =
              (files w)(conf_path distro_name nic \<mapsto>
                          conf_text distro_name nic ipaddr netmask interface_type)))"
proof (intro conjI impI)
  let ?conf = "conf_path distro_name nic"
  assume orig: "files w ?conf = Some original"
  let ?r1 = "set_ip distro_name run nic ipaddr netmask interface_type w"
  note s = set_ip_ok [where run = run and nic = nic and ipaddr = ipaddr and netmask = netmask
      and interface_type = interface_type, OF assms(1) assms(2) orig]
  have b: "files (snd ?r1) (backup_of ?conf) = Some original"
    by (simp add: s(2) backup_differs)
  note u = unset_ip_ok [where run = run and nic = nic, OF assms(1) assms(3) b]
  have eq: "files (snd (unset_ip distro_name run nic (snd ?r1))) =
      (files w)(backup_of ?conf := None)"
    using orig by (auto simp: u(2) s(2) fun_eq_iff backup_differs)
  show "let r1 = ?r1; r2 = unset_ip distro_name run nic (snd r1)
        in fst r1 = Inr () \<and> fst r2 = Inr () \<and>
           files (snd r1) (backup_of ?conf) = Some original \<and>
           files (snd r2) ?conf = Some original \<and>
           files (snd r2) = (files w)(backup_of ?conf := None)"
    using orig by (simp add: Let_def s(1) u(1) b eq backup_differs)
next
  let ?conf = "conf_path distro_name nic"
  assume saved: "files w (backup_of ?conf) = Some saved"
  let ?r1 = "unset_ip distro_name run nic w"
  note u = unset_ip_ok [where run = run and nic = nic, OF assms(1) assms(3) saved]
  have c: "files (snd ?r1) ?conf = Some saved"
    by (simp add: u(2))
  note s = set_ip_ok [where run = run and nic = nic and ipaddr = ipaddr and netmask = netmask
      and interface_type = interface_type, OF assms(1) assms(2) c]
  have eq: "files (snd (set_ip distro_name run nic ipaddr netmask interface_type (snd ?r1))) =
      (files w)(?conf \<mapsto> conf_text distro_name nic ipaddr netmask interface_type)"
    using saved by (auto simp: u(2) s(2) fun_eq_iff backup_differs)
  show "let r1 = ?r1; r2 = set_ip distro_name run nic ipaddr netmask interface_type (snd r1)
        in fst r1 = Inr () \<and> fst r2 = Inr () \<and>
           files (snd r1) ?conf = Some saved \<and>
           files (snd r2) (backup_of ?conf) = Some saved \<and>
           files (snd r2) =
             (files w)(?conf \<mapsto> conf_text distro_name nic ipaddr netmask interface_type)"
    using saved by (simp add: Let_def s(1) u(1) c eq backup_differs)
qed

text \<open>
  Claim C7, as amended. On a supported distribution, when \<^verbatim>\<open>ifup\<close> and \<^verbatim>\<open>ifdown\<close>
  succeed and the first move replaces no file whose content the sequence does not write
  back: when the configuration file exists and its backup does not, \<^verbatim>\<open>set_ip\<close> puts
  the original content at the backup path and \<^verbatim>\<open>unset_ip\<close> after it puts it back,
  leaving every file as it was; when the backup exists and the configuration file is
  absent or holds the text that \<^verbatim>\<open>set_ip\<close> writes, \<^verbatim>\<open>unset_ip\<close> puts the content of
  the backup at the configuration path and \<^verbatim>\<open>set_ip\<close> after it puts it at the backup
  path again, leaving every file as it was but for the configuration path, which holds
  the text that \<^verbatim>\<open>set_ip\<close> writes.
\<close>

theorem set_ip_unset_ip_round_trip:
  assumes "distro_name = ''rhel'' \<or> distro_name = ''SuSE''"
    and "run (''ifup '' @ name nic) = 0"
    and "run (''ifdown '' @ name nic) = 0"
  shows
    "(files w (conf_path distro_name nic) = Some original \<and>
      files w (backup_of (conf_path distro_name nic)) = None \<longrightarrow>
        (let r1 = set_ip distro_name run nic ipaddr netmask interface_type w;
             r2 = unset_ip distro_name run nic (snd r1)
         in fst r1 = Inr () \<and> fst r2 = Inr () \<and>
            files (snd r1) (backup_of (conf_path distro_name nic)) = Some original \<and>
            files (snd r1) (conf_path distro_name nic) =
              Some (conf_text distro_name nic ipaddr netmask interface_type) \<and>
            files (snd r2) = files w)) \<and>
     (files w (backup_of (conf_path distro_name nic)) = Some saved \<and>
      (files w (conf_path distro_name nic) = None \<or>
       files w (conf_path distro_name nic) =
         Some (conf_text distro_name nic ipaddr netmask interface_type)) \<longrightarrow>
        (let r1 = unset_ip distro_name run nic w;
             r2 = set_ip distro_name run nic ipaddr netmask interface_type (snd r1)
         in fst r1 = Inr () \<and> fst r2 = Inr () \<and>
            files (snd r1) (conf_path distro_name nic) = Some saved \<and>
            files (snd r1) (backup_of (conf_path distro_name nic)) = None \<and>
            files (snd r2) (backup_of (conf_path distro_name nic)) = Some saved \<and>
            files (snd r2) =
              (files w)(conf_path distro_name nic \<mapsto>
                          conf_text distro_name nic ipaddr netmask interface_type) \<and>
            (files w (conf_path distro_name nic) \<noteq> None \<longrightarrow> files (snd r2) = files w)))"
proof (intro conjI impI)
  let ?conf = "conf_path distro_name nic"
  let ?text = "conf_text distro_name nic ipaddr netmask interface_type"
  assume pre: "files w ?conf = Some original \<and> files w (backup_of ?conf) = None"
  then have orig: "files w ?conf = Some original" and nob: "files w (backup_of ?conf) = None"
    by simp_all
  let ?r1 = "set_ip distro_name run nic ipaddr netmask interface_type w"
  note s = set_ip_ok [where run = run and nic = nic and ipaddr = ipaddr and netmask = netmask
      and interface_type = interface_type, OF assms(1) assms(2) orig]
  have b: "files (snd ?r1) (backup_of ?conf) = Some original"
    by (simp add: s(2) backup_differs)
  have c: "files (snd ?r1) ?conf = Some ?text"
    by (simp add: s(2))
  note g = set_ip_unset_ip_files [where run = run and nic = nic and w = w
      and original = original and ipaddr = ipaddr and netmask = netmask
      and interface_type = interface_type, OF assms]
  have "(files w)(backup_of ?conf := None) = files w"
    using nob by (auto simp: fun_eq_iff)
  with g orig show "let r1 = ?r1; r2 = unset_ip distro_name run nic (snd r1)
        in fst r1 = Inr () \<and> fst r2 = Inr () \<and>
           files (snd r1) (backup_of ?conf) = Some original \<and>
           files (snd r1) ?conf = Some ?text \<and>
           files (snd r2) = files w"
    by (simp add: Let_def c)
next
  let ?conf = "conf_path distro_name nic"
  let ?text = "conf_text distro_name nic ipaddr netmask interface_type"
  assume pre: "files w (backup_of ?conf) = Some saved \<and>
      (files w ?conf = None \<or> files w ?conf = Some ?text)"
  then have saved: "files w (backup_of ?conf) = Some saved" by simp
  let ?r1 = "unset_ip distro_name run nic w"
  note u = unset_ip_ok [where run = run and nic = nic, OF assms(1) assms(3) saved]
  have nb: "files (snd ?r1) (backup_of ?conf) = None"
    by (simp add: u(2) backup_differs)
  note g = set_ip_unset_ip_files [where run = run and nic = nic and w = w
      and saved = saved and ipaddr = ipaddr and netmask = netmask
      and interface_type = interface_type, OF assms]
  have same: "files w ?conf \<noteq> None \<longrightarrow> (files w)(?conf \<mapsto> ?text) = files w"
    using pre by (auto simp: fun_eq_iff)
  from g saved same show "let r1 = ?r1;
            r2 = set_ip distro_name run nic ipaddr netmask interface_type (snd r1)
        in fst r1 = Inr () \<and> fst r2 = Inr () \<and>
           files (snd r1) ?conf = Some saved \<and>
           files (snd r1) (backup_of ?conf) = None \<and>
           files (snd r2) (backup_of ?conf) = Some saved \<and>
           files (snd r2) = (files w)(?conf \<mapsto> ?text) \<and>
           (files w ?conf \<noteq> None \<longrightarrow> files (snd r2) = files w)"
    by (simp add: Let_def nb backup_differs)
qed

text \<open>On \<^verbatim>\<open>rhel\<close>, from a configuration file of \<^verbatim>\<open>eth0\<close> without backup, and from
  a backup without configuration file.\<close>

theorem set_ip_unset_ip_round_trip_witness:
  "files (snd (unset_ip ''rhel'' run_ok eth0
       (snd (set_ip ''rhel'' run_ok eth0 ''10.0.0.2'' ''255.255.255.0'' None rhel_world)))) =
     files rhel_world \<and>
   files (snd (set_ip ''rhel'' run_ok eth0 ''10.0.0.2'' ''255.255.255.0'' None
       (snd (unset_ip ''rhel'' run_ok eth0 rhel_backup_world))))
     ''/etc/sysconfig/network-scripts/ifcfg-eth0.backup'' = Some ''BOOTPROTO=dhcp''"
proof -
  have d: "''rhel'' = ''rhel'' \<or> ''rhel'' = ''SuSE''" by simp
  have up: "run_ok (''ifup '' @ name eth0) = 0" by (simp add: run_ok_def)
  have down: "run_ok (''ifdown '' @ name eth0) = 0" by (simp add: run_ok_def)
  have p: "conf_path ''rhel'' eth0 = ''/etc/sysconfig/network-scripts/ifcfg-eth0''"
    by (simp add: conf_path_def rhel_conf_file_def eth0_def)
  have f1: "files rhel_world (conf_path ''rhel'' eth0) = Some ''BOOTPROTO=dhcp'' \<and>
      files rhel_world (backup_of (conf_path ''rhel'' eth0)) = None"
    by (simp add: p rhel_world_def backup_of_def)
  have f2: "files rhel_backup_world (backup_of (conf_path ''rhel'' eth0)) = Some ''BOOTPROTO=dhcp'' \<and>
      (files rhel_backup_world (conf_path ''rhel'' eth0) = None \<or>
       files rhel_backup_world (conf_path ''rhel'' eth0) =
         Some (conf_text ''rhel'' eth0 ''10.0.0.2'' ''255.255.255.0'' None))"
    by (simp add: p backup_of_def rhel_backup_world_def)
  from set_ip_unset_ip_round_trip [where run = run_ok and nic = eth0 and w = rhel_world
      and original = "''BOOTPROTO=dhcp''" and ipaddr = "''10.0.0.2''"
      and netmask = "''255.255.255.0''" and interface_type = None, OF d up down] f1
  have one: "files (snd (unset_ip ''rhel'' run_ok eth0
       (snd (set_ip ''rhel'' run_ok eth0 ''10.0.0.2'' ''255.255.255.0'' None rhel_world)))) =
     files rhel_world"
    by (simp add: Let_def)
  from set_ip_unset_ip_round_trip [where run = run_ok and nic = eth0
      and w = rhel_backup_world and saved = "''BOOTPROTO=dhcp''" and ipaddr = "''10.0.0.2''"
      and netmask = "''255.255.255.0''" and interface_type = None, OF d up down] f2
  have two: "files (snd (set_ip ''rhel'' run_ok eth0 ''10.0.0.2'' ''255.255.255.0'' None
       (snd (unset_ip ''rhel'' run_ok eth0 rhel_backup_world))))
     ''/etc/sysconfig/network-scripts/ifcfg-eth0.backup'' = Some ''BOOTPROTO=dhcp''"
    by (simp add: Let_def p backup_of_def)
  from one two show ?thesis by simp
qed

text \<open>
  Claim C7 as it is stated does not hold when both files exist. With a configuration
  file and a backup of another content, both sequences complete: after \<^verbatim>\<open>set_ip\<close>
  and \<^verbatim>\<open>unset_ip\<close> the backup is absent and its content is in no file, and after
  \<^verbatim>\<open>unset_ip\<close> and \<^verbatim>\<open>set_ip\<close> the content of the configuration file is in no file.
\<close>

theorem set_ip_unset_ip_both_files_counterexample:
  "files rhel_both_world ''/etc/sysconfig/network-scripts/ifcfg-eth0'' = Some ''BOOTPROTO=dhcp'' \<and>
   files rhel_both_world ''/etc/sysconfig/network-scripts/ifcfg-eth0.backup'' =
     Some ''BOOTPROTO=static'' \<and>
   fst (set_ip ''rhel'' run_ok eth0 ''10.0.0.2'' ''255.255.255.0'' None rhel_both_world) = Inr () \<and>
   fst (unset_ip ''rhel'' run_ok eth0
     (snd (set_ip ''rhel'' run_ok eth0 ''10.0.0.2'' ''255.255.255.0'' None rhel_both_world))) =
     Inr () \<and>
   ''BOOTPROTO=static'' \<notin> Map.ran (files (snd (unset_ip ''rhel'' run_ok eth0
     (snd (set_ip ''rhel'' run_ok eth0 ''10.0.0.2'' ''255.255.255.0'' None rhel_both_world))))) \<and>
   fst (unset_ip ''rhel'' run_ok eth0 rhel_both_world) = Inr () \<and>
   fst (set_ip ''rhel'' run_ok eth0 ''10.0.0.2'' ''255.255.255.0'' None
     (snd (unset_ip ''rhel'' run_ok eth0 rhel_both_world))) = Inr () \<and>
   ''BOOTPROTO=dhcp'' \<notin> Map.ran (files (snd (set_ip ''rhel'' run_ok eth0 ''10.0.0.2''
     ''255.255.255.0'' None (snd (unset_ip ''rhel'' run_ok eth0 rhel_both_world)))))"
proof -
  have d: "''rhel'' = ''rhel'' \<or> ''rhel'' = ''SuSE''" by simp
  have up: "run_ok (''ifup '' @ name eth0) = 0" by (simp add: run_ok_def)
  have down: "run_ok (''ifdown '' @ name eth0) = 0" by (simp add: run_ok_def)
  have p: "conf_path ''rhel'' eth0 = ''/etc/sysconfig/network-scripts/ifcfg-eth0''"
    by (simp add: conf_path_def rhel_conf_file_def eth0_def)
  have f1: "files rhel_both_world (conf_path ''rhel'' eth0) = Some ''BOOTPROTO=dhcp''"
    by (simp add: p rhel_both_world_def)
  have f2: "files rhel_both_world (backup_of (conf_path ''rhel'' eth0)) = Some ''BOOTPROTO=static''"
    by (simp add: p backup_of_def rhel_both_world_def)
  note g = set_ip_unset_ip_files [where run = run_ok and nic = eth0 and w = rhel_both_world
      and original = "''BOOTPROTO=dhcp''" and saved = "''BOOTPROTO=static''"
      and ipaddr = "''10.0.0.2''" and netmask = "''255.255.255.0''" and interface_type = None,
      OF d up down]
  have r1: "Map.ran ((files rhel_both_world)(backup_of (conf_path ''rhel'' eth0) := None)) =
      {''BOOTPROTO=dhcp''}"
    by (auto simp: ran_def p backup_of_def rhel_both_world_def split: if_splits)
  have r2: "Map.ran ((files rhel_both_world)(conf_path ''rhel'' eth0 \<mapsto>
        conf_text ''rhel'' eth0 ''10.0.0.2'' ''255.255.255.0'' None)) =
      {conf_text ''rhel'' eth0 ''10.0.0.2'' ''255.255.255.0'' None, ''BOOTPROTO=static''}"
    by (auto simp: ran_def p backup_of_def rhel_both_world_def split: if_splits)
  have t: "conf_text ''rhel'' eth0 ''10.0.0.2'' ''255.255.255.0'' None \<noteq> ''BOOTPROTO=dhcp''"
    by (simp add: conf_text_def rhel_conf_text_def)
  from g f1 f2 r1 r2 t show ?thesis
    by (simp add: Let_def p rhel_both_world_def)
qed

text \<open>
  Claim C8, as amended. When the distribution is neither \<^verbatim>\<open>rhel\<close> nor \<^verbatim>\<open>SuSE\<close> and
  \<^verbatim>\<open>ifdown\<close> exits with status 0, \<^verbatim>\<open>unset_ip\<close> runs \<^verbatim>\<open>ifdown\<close> and then raises
  \<open>UnboundLocalError\<close>, not \<open>NWException\<close>; no file has changed, so that the backup
  is not restored.
\<close>

theorem unset_ip_unsupported_distro:
  assumes "distro_name \<noteq> ''rhel''" and "distro_name \<noteq> ''SuSE''"
    and "run (''ifdown '' @ name nic) = 0"
  shows "unset_ip distro_name run nic w =
           (Inl UnboundLocalError, w\<lparr>issued := issued w @ [''ifdown '' @ name nic]\<rparr>)"
  using assms by (simp add: unset_ip_def bring_down_ok ran_def)

text \<open>On \<^verbatim>\<open>Ubuntu\<close>, with a backup of the configuration of \<^verbatim>\<open>eth0\<close>.\<close>

theorem unset_ip_unsupported_distro_witness:
  "unset_ip ''Ubuntu'' run_ok eth0 rhel_backup_world =
     (Inl UnboundLocalError, rhel_backup_world\<lparr>issued := [''ifdown eth0'']\<rparr>)"
proof -
  have a: "''Ubuntu'' \<noteq> ''rhel''" and b: "''Ubuntu'' \<noteq> ''SuSE''" by simp_all
  have c: "run_ok (''ifdown '' @ name eth0) = 0" by (simp add: run_ok_def)
  from unset_ip_unsupported_distro [where run = run_ok and nic = eth0
      and w = rhel_backup_world, OF a b c]
  show ?thesis by (simp add: eth0_def rhel_backup_world_def)
qed

text \<open>
  Claim C8 as it is stated does not hold when \<^verbatim>\<open>ifdown\<close> fails: on \<^verbatim>\<open>Ubuntu\<close>,
  with commands that exit with status 1, \<^verbatim>\<open>unset_ip\<close> raises \<open>NWException\<close>.
\<close>

theorem unset_ip_ifdown_fails_counterexample:
  "''Ubuntu'' \<noteq> ''rhel'' \<and> ''Ubuntu'' \<noteq> ''SuSE'' \<and>
   unset_ip ''Ubuntu'' run_fail eth0 rhel_backup_world =
     (Inl (NWException ''ifdown fails: ''), rhel_backup_world\<lparr>issued := [''ifdown eth0'']\<rparr>)"
  by (simp add: unset_ip_def bring_down_def process_system_def run_fail_def ran_def eth0_def
      rhel_backup_world_def)

text \<open>When \<^verbatim>\<open>ifdown\<close> fails, \<^verbatim>\<open>bring_down\<close> raises before the configuration path is read.\<close>

lemma unset_ip_ifdown_fails:
  assumes "run (''ifdown '' @ name nic) \<noteq> 0"
  shows "unset_ip distro_name run nic w =
           (Inl (NWException ''ifdown fails: ''), w\<lparr>issued := issued w @ [''ifdown '' @ name nic]\<rparr>)"
  using assms by (simp add: unset_ip_def bring_down_fails ran_def)

subsection \<open>Host\<close>

text \<open>
  Claim C9. When the host, the port or the user name is false, constructing a
  \<^verbatim>\<open>Host\<close> raises nothing and opens no session: the only effect is the listing of
  \<^verbatim>\<open>/sys/class/net\<close>, the session is absent, \<^verbatim>\<open>is_remote\<close> is false and the
  interfaces are the local entries of that directory, in order.
\<close>

theorem Host_without_session:
  assumes "\<not> true_str a_host \<or> \<not> true_int a_port \<or> \<not> true_str a_username"
  shows "\<exists>h. Host_init connect listdir a_host a_port a_username a_key a_password =
               (Inr h, [ListDir ''/sys/class/net'']) \<and>
             session h = None \<and> \<not> is_remote h \<and>
             interfaces h =
               map (\<lambda>n. \<lparr>name = n, remote_session = None\<rparr>) (listdir ''/sys/class/net'')"
  using assms
  by (auto simp: Host_init_def connect_host_def populate_interfaces_def is_remote_def Let_def)

text \<open>A host and a port without user name, on a machine with two interfaces.\<close>

theorem Host_without_session_witness:
  "\<exists>h. Host_init no_connect two_interfaces (Some ''peer'') (Some 22) None None None =
          (Inr h, [ListDir ''/sys/class/net'']) \<and>
        session h = None \<and> \<not> is_remote h \<and>
        interfaces h = [\<lparr>name = ''lo'', remote_session = None\<rparr>,
                        \<lparr>name = ''eth0'', remote_session = None\<rparr>]"
proof -
  have "\<not> true_str (Some ''peer'') \<or> \<not> true_int (Some 22) \<or> \<not> true_str None"
    by (simp add: true_str_def)
  from Host_without_session [OF this, of no_connect two_interfaces None None]
  show ?thesis by (simp add: two_interfaces_def)
qed

text \<open>With the three of them true, a failing connection is raised as \<open>NWException\<close>.\<close>

lemma Host_connect_fails:
  assumes "true_str a_host" and "true_int a_port" and "true_str a_username"
    and "connect a_host a_port a_username a_key a_password = Inl e"
  shows "Host_init connect listdir a_host a_port a_username a_key a_password =
           (Inl (NWException ''Could not connect to host: ''), [OpenSession])"
  using assms by (simp add: Host_init_def connect_host_def)

end
